theory Spec2Isabelle
  imports Complex_Main
begin

section \<open>Common types\<close>

text \<open>A Go \<open>error\<close> value carries a message; \<open>nil\<close> is \<open>None\<close> of \<open>error option\<close>.\<close>

datatype error = Error string

section \<open>Package config\<close>







definition PidFilePath :: string where
  "PidFilePath = ''var/unisys.pid''"








section \<open>Package cmd\<close>

text \<open>
  The operating system as \<open>IsRunning\<close> and \<open>stop\<close> see it. \<open>os.Open\<close>,
  \<open>io.ReadAll\<close> and \<open>strconv.Atoi\<close> belong to the Go library;
  \<open>file.ChangeWorkPathToModulePath\<close>, \<open>process.IsProcessRun\<close> and
  \<open>process.SendSignal\<close> belong to packages of the repository whose sources are not
  available. All six are parameters of the model: the results they would give.
  \<open>strconv.Atoi\<close> returns a value together with its error.
\<close>

datatype signal = SIGINT | SIGTERM | SIGUSR1

record os_env =
  file_ChangeWorkPathToModulePath :: "error option"
  os_Open :: "string \<Rightarrow> error + nat"
  io_ReadAll :: "nat \<Rightarrow> error + string"
  strconv_Atoi :: "string \<Rightarrow> int \<times> error option"
  process_IsProcessRun :: "int \<Rightarrow> bool"
  process_SendSignal :: "int \<Rightarrow> signal \<Rightarrow> error option"

text \<open>
  \<open>IsRunning(pid *int, pidFilePath string) bool\<close>. Integer variables live in a store
  \<open>nat \<Rightarrow> int\<close>; the pointer \<open>pid\<close> is \<open>None\<close> for \<open>nil\<close> and \<open>Some a\<close> for the
  address \<open>a\<close>. The assignment \<open>*pid, err = strconv.Atoi(...)\<close> writes the returned
  value before the error is tested.
\<close>

definition IsRunning ::
  "os_env \<Rightarrow> nat option \<Rightarrow> string \<Rightarrow> (nat \<Rightarrow> int) \<Rightarrow> bool \<times> (nat \<Rightarrow> int)" where
  "IsRunning env pid pidFilePath st =
    (case pid of
       None \<Rightarrow> (False, st)
     | Some a \<Rightarrow>
        (case os_Open env pidFilePath of
           Inl e \<Rightarrow> (False, st)
         | Inr file \<Rightarrow>
            (case io_ReadAll env file of
               Inl e \<Rightarrow> (False, st)
             | Inr pidStr \<Rightarrow>
                (case strconv_Atoi env pidStr of
                   (n, err) \<Rightarrow>
                     (let st1 = st(a := n) in
                      case err of
                        Some e \<Rightarrow> (False, st1)
                      | None \<Rightarrow> (process_IsProcessRun env (st1 a), st1))))))"


section \<open>Package resource\<close>

text \<open>
  The package \<open>pkg/util/resource\<close> is used by the collector but its source is not
  available. Its entry type is known from the collector's debug output (the fields
  \<open>Interface\<close>, \<open>InboundBps\<close>, \<open>OutboundBps\<close>); the counter types and the four
  calculations are modelled from the specification. Go's \<open>float64\<close> values are
  modelled as real numbers: rounding, infinities and NaN are outside the model.
\<close>

record resource_NetworkTraffic =
  Interface :: string
  InboundBps :: real
  OutboundBps :: real

text \<open>
  Modelled from the spec: the counter snapshots returned by \<open>resource.GetCPUStat\<close>,
  \<open>resource.GetMemStat\<close>, \<open>resource.GetDiskStat\<close> and
  \<open>resource.GetAllNetworkTraffic\<close> (busy and total CPU time; total and available
  memory; total and free disk space; received and sent bytes per interface, in
  discovery order). Counters are non-negative integers.
\<close>

record CPUStat =
  cpu_busy :: nat
  cpu_total :: nat

record MemStat =
  mem_total :: nat
  mem_available :: nat

record DiskStat =
  disk_total :: nat
  disk_free :: nat

record NetCounters =
  bytes_in :: nat
  bytes_out :: nat

text \<open>
  Modelled from the spec: \<open>resource.CalculateCPURate\<close>, "compute utilization as
  (busyTimeB - busyTimeA) / (totalTimeB - totalTimeA) x 100, clamped to [0,100]". The
  spec does not say what happens when the two totals are equal; the division of HOL
  gives 0 there, and no theorem below relies on it.
\<close>

definition CalculateCPURate :: "CPUStat \<Rightarrow> CPUStat \<Rightarrow> real" where
  "CalculateCPURate prevStat currStat =
     max 0 (min 100
       ((real (cpu_busy currStat) - real (cpu_busy prevStat)) /
        (real (cpu_total currStat) - real (cpu_total prevStat)) * 100))"

text \<open>
  Modelled from the spec: \<open>resource.CalculateMemRate\<close>, "utilization =
  (total - available) / total x 100", and \<open>resource.CalculateDiskRate\<close>, "utilization
  = (total - free) / total x 100". The spec names no clamp for these two.
\<close>

definition CalculateMemRate :: "MemStat \<Rightarrow> real" where
  "CalculateMemRate m =
     (real (mem_total m) - real (mem_available m)) / real (mem_total m) * 100"

definition CalculateDiskRate :: "DiskStat \<Rightarrow> real" where
  "CalculateDiskRate d =
     (real (disk_total d) - real (disk_free d)) / real (disk_total d) * 100"

text \<open>
  Modelled from the spec: \<open>resource.CalculateNetworkTraffic\<close>, "for each interface
  present in both snapshots, bitsPerSec = (bytesB - bytesA) x 8 / elapsedSeconds,
  separately for inbound and outbound; interfaces that disappear between samples are
  dropped from the result". The result follows the order of the second snapshot. The
  source function also returns an error; the spec names no failure of the calculation,
  so the modelled one always succeeds.
\<close>

fun CalculateNetworkTraffic ::
  "(string \<times> NetCounters) list \<Rightarrow> (string \<times> NetCounters) list \<Rightarrow> real \<Rightarrow>
   error + resource_NetworkTraffic list" where
  "CalculateNetworkTraffic prev current intervalSec =
     Inr (concat (map (\<lambda>(name, b).
            case map_of prev name of
              None \<Rightarrow> []
            | Some a \<Rightarrow>
                [\<lparr>Interface = name,
                  InboundBps = (real (bytes_in b) - real (bytes_in a)) * 8 / intervalSec,
                  OutboundBps = (real (bytes_out b) - real (bytes_out a)) * 8 / intervalSec\<rparr>])
          current))"

section \<open>Package resourcecollecter\<close>

subsection \<open>Slices and the heap\<close>

text \<open>
  A Go slice is a window (offset, length, capacity) on a backing array; two slices on
  the same array alias. The heap maps array addresses to their contents and keeps the
  next unused address. The \<open>nil\<close> slice and the empty literal \<open>[]T{}\<close> have length and
  capacity 0; they are the same value here.
\<close>

record slice =
  s_arr :: nat
  s_off :: nat
  s_len :: nat
  s_cap :: nat

record heap =
  arrays :: "nat \<Rightarrow> resource_NetworkTraffic list"
  brk :: nat

definition nil_slice :: slice where
  "nil_slice = \<lparr>s_arr = 0, s_off = 0, s_len = 0, s_cap = 0\<rparr>"

definition elems :: "heap \<Rightarrow> slice \<Rightarrow> resource_NetworkTraffic list" where
  "elems h s = take (s_len s) (drop (s_off s) (arrays h (s_arr s)))"

text \<open>A new backing array holding \<open>xs\<close>, and the slice on all of it.\<close>

definition alloc :: "heap \<Rightarrow> resource_NetworkTraffic list \<Rightarrow> slice \<times> heap" where
  "alloc h xs =
     (\<lparr>s_arr = brk h, s_off = 0, s_len = length xs, s_cap = length xs\<rparr>,
      h\<lparr>arrays := (arrays h)(brk h := xs), brk := brk h + 1\<rparr>)"

text \<open>
  \<open>append([]resource.NetworkTraffic{}, s...)\<close>: appending nothing returns the empty
  slice; otherwise the empty slice has no room, and the elements are copied to a new
  array.
\<close>

definition append_to_empty :: "heap \<Rightarrow> slice \<Rightarrow> slice \<times> heap" where
  "append_to_empty h s = (if s_len s = 0 then (nil_slice, h) else alloc h (elems h s))"

subsection \<open>The snapshot store\<close>

record Resource =
  CPUUsageRate :: real
  MemUsageRate :: real
  DiskUsageRate :: real
  NetworkTraffic :: slice

text \<open>
  What the collector has done, in order: a call of the cancellable wait with its
  timeout (in nanoseconds, as \<open>time.Duration\<close>), the launch of the four samplers, a
  publication.
\<close>

datatype event = Wait int | Launch | Publish

record world =
  heap :: heap
  GlobalResource :: Resource
  trace :: "event list"

text \<open>The zero value of \<open>Resource\<close>, as \<open>var res Resource\<close> and the initial global.\<close>

definition zero_Resource :: Resource where
  "zero_Resource =
     \<lparr>CPUUsageRate = 0, MemUsageRate = 0, DiskUsageRate = 0, NetworkTraffic = nil_slice\<rparr>"

definition init_world :: world where
  "init_world =
     \<lparr>heap = \<lparr>arrays = (\<lambda>_. []), brk = 1\<rparr>, GlobalResource = zero_Resource, trace = []\<rparr>"

text \<open>
  \<open>SetGlobalResource(r *Resource)\<close> and \<open>GetGlobalResource()\<close>. Each runs under the
  lock \<open>GlobalResMutex\<close>, so each is one atomic step on the world.
\<close>

definition SetGlobalResource :: "Resource \<Rightarrow> world \<Rightarrow> world" where
  "SetGlobalResource r w =
     (case append_to_empty (heap w) (NetworkTraffic r) of
        (s, h) \<Rightarrow>
          w\<lparr>heap := h,
            GlobalResource :=
              \<lparr>CPUUsageRate = CPUUsageRate r, MemUsageRate = MemUsageRate r,
               DiskUsageRate = DiskUsageRate r, NetworkTraffic = s\<rparr>\<rparr>)"

definition GetGlobalResource :: "world \<Rightarrow> Resource \<times> world" where
  "GetGlobalResource w =
     (case append_to_empty (heap w) (NetworkTraffic (GlobalResource w)) of
        (s, h) \<Rightarrow>
          (\<lparr>CPUUsageRate = CPUUsageRate (GlobalResource w),
            MemUsageRate = MemUsageRate (GlobalResource w),
            DiskUsageRate = DiskUsageRate (GlobalResource w), NetworkTraffic = s\<rparr>,
           w\<lparr>heap := h\<rparr>))"

text \<open>What a holder of a \<open>Resource\<close> value sees: the three rates and the entries.\<close>

definition view ::
  "heap \<Rightarrow> Resource \<Rightarrow> real \<times> real \<times> real \<times> resource_NetworkTraffic list" where
  "view h r = (CPUUsageRate r, MemUsageRate r, DiskUsageRate r, elems h (NetworkTraffic r))"

text \<open>
  What the owner of a \<open>Resource\<close> variable can do to it: assign a rate, overwrite the
  entry at an index, append an entry, or re-slice. An index out of range panics
  (\<open>None\<close>). An append writes in place when there is room and moves to a new array
  otherwise; the Go runtime may give the new array spare capacity, which no other
  slice can reach, and the model gives it none.
\<close>

datatype mutation =
  SetCPU real | SetMem real | SetDisk real
  | SetEntry nat resource_NetworkTraffic
  | AppendEntry resource_NetworkTraffic
  | Reslice nat nat

fun mutate :: "mutation \<Rightarrow> Resource \<times> heap \<Rightarrow> (Resource \<times> heap) option" where
  "mutate (SetCPU v) (r, h) = Some (r\<lparr>CPUUsageRate := v\<rparr>, h)"
| "mutate (SetMem v) (r, h) = Some (r\<lparr>MemUsageRate := v\<rparr>, h)"
| "mutate (SetDisk v) (r, h) = Some (r\<lparr>DiskUsageRate := v\<rparr>, h)"
| "mutate (SetEntry i v) (r, h) =
     (let s = NetworkTraffic r in
      if i < s_len s
      then Some (r, h\<lparr>arrays := (arrays h)(s_arr s := (arrays h (s_arr s))[s_off s + i := v])\<rparr>)
      else None)"
| "mutate (AppendEntry v) (r, h) =
     (let s = NetworkTraffic r in
      if s_len s < s_cap s
      then Some (r\<lparr>NetworkTraffic := s\<lparr>s_len := s_len s + 1\<rparr>\<rparr>,
                 h\<lparr>arrays := (arrays h)(s_arr s := (arrays h (s_arr s))[s_off s + s_len s := v])\<rparr>)
      else (case alloc h (elems h s @ [v]) of
              (s', h') \<Rightarrow> Some (r\<lparr>NetworkTraffic := s'\<rparr>, h')))"
| "mutate (Reslice i j) (r, h) =
     (let s = NetworkTraffic r in
      if i \<le> j \<and> j \<le> s_cap s
      then Some (r\<lparr>NetworkTraffic :=
                    \<lparr>s_arr = s_arr s, s_off = s_off s + i, s_len = j - i, s_cap = s_cap s - i\<rparr>\<rparr>, h)
      else None)"

fun mutate_all :: "mutation list \<Rightarrow> Resource \<times> heap \<Rightarrow> (Resource \<times> heap) option" where
  "mutate_all [] rh = Some rh"
| "mutate_all (m # ms) rh =
     (case mutate m rh of None \<Rightarrow> None | Some rh' \<Rightarrow> mutate_all ms rh')"

subsection \<open>The samplers\<close>

text \<open>
  The counter reads of one collection cycle: what each call of the operating-system
  readers returns, in the order the samplers make them.
\<close>

record readings =
  cpu_stat1 :: "error + CPUStat"
  cpu_stat2 :: "error + CPUStat"
  mem_stat :: "error + MemStat"
  disk_stat :: "error + DiskStat"
  net_traffic1 :: "error + (string \<times> NetCounters) list"
  net_traffic2 :: "error + (string \<times> NetCounters) list"

definition getCPUUsageRate :: "readings \<Rightarrow> real \<times> error option" where
  "getCPUUsageRate rd =
     (case cpu_stat1 rd of
        Inl err \<Rightarrow> (0, Some err)
      | Inr prevStat \<Rightarrow>
          (case cpu_stat2 rd of
             Inl err \<Rightarrow> (0, Some err)
           | Inr currStat \<Rightarrow> (CalculateCPURate prevStat currStat, None)))"

definition getMemUsageRate :: "readings \<Rightarrow> real \<times> error option" where
  "getMemUsageRate rd =
     (case mem_stat rd of
        Inl err \<Rightarrow> (0, Some err)
      | Inr memStat \<Rightarrow> (CalculateMemRate memStat, None))"

definition getDiskUsageRate :: "readings \<Rightarrow> real \<times> error option" where
  "getDiskUsageRate rd =
     (case disk_stat rd of
        Inl err \<Rightarrow> (0, Some err)
      | Inr diskStat \<Rightarrow> (CalculateDiskRate diskStat, None))"

text \<open>
  \<open>getNetworkTraffic\<close> returns the \<open>nil\<close> slice on every failure; on success the
  calculated list is a slice on a new array.
\<close>

definition getNetworkTraffic :: "readings \<Rightarrow> heap \<Rightarrow> (slice \<times> error option) \<times> heap" where
  "getNetworkTraffic rd h =
     (case net_traffic1 rd of
        Inl err \<Rightarrow> ((nil_slice, Some err), h)
      | Inr prev \<Rightarrow>
          (case net_traffic2 rd of
             Inl err \<Rightarrow> ((nil_slice, Some err), h)
           | Inr current \<Rightarrow>
               (case CalculateNetworkTraffic prev current 1 of
                  Inl err \<Rightarrow> ((nil_slice, Some err), h)
                | Inr trafficList \<Rightarrow>
                    (case alloc h trafficList of (s, h') \<Rightarrow> ((s, None), h')))))"

subsection \<open>The collection loop\<close>

text \<open>
  One pass of the loop body. The four goroutines write four different fields of the
  local \<open>res\<close> and are joined before the publication, so their interleaving does not
  show in the result; the model runs them in the order of the source. Each assigns
  the value its sampler returns whether or not the sampler failed. Logging is not
  modelled.
\<close>

definition cycle :: "readings \<Rightarrow> world \<Rightarrow> world" where
  "cycle rd w =
     (let w1 = w\<lparr>trace := trace w @ [Launch]\<rparr>;
          res0 = zero_Resource;
          res1 = res0\<lparr>CPUUsageRate := fst (getCPUUsageRate rd)\<rparr>;
          res2 = res1\<lparr>MemUsageRate := fst (getMemUsageRate rd)\<rparr>;
          res3 = res2\<lparr>DiskUsageRate := fst (getDiskUsageRate rd)\<rparr>;
          n = getNetworkTraffic rd (heap w1);
          res4 = res3\<lparr>NetworkTraffic := fst (fst n)\<rparr>;
          w2 = SetGlobalResource res4 (w1\<lparr>heap := snd n\<rparr>)
      in w2\<lparr>trace := trace w2 @ [Publish]\<rparr>)"

text \<open>
  Modelled from the spec: the outcome of \<open>goroutine.WaitCancelWithTimeout\<close> (the
  source of package \<open>goroutine\<close> is not available), "a tri-state return
  (timeout/cancel/error)". The loop names only \<open>WaitTimeout\<close>.
\<close>

datatype WaitResult = WaitTimeout | WaitCancel | WaitError

definition Second :: int where
  "Second = 1000000000"

text \<open>
  \<open>CollectResource\<close>. The loop may run for ever; it is driven by a finite script,
  one entry per wait: the outcome of that wait and the counter reads of the cycle that
  follows it. The result is the world and whether the function has returned; with the
  script used up the loop is still blocked in the wait it has just entered.
\<close>

fun CollectResource_loop ::
  "int \<Rightarrow> (WaitResult \<times> readings) list \<Rightarrow> world \<Rightarrow> world \<times> bool" where
  "CollectResource_loop timeout [] w = (w\<lparr>trace := trace w @ [Wait timeout]\<rparr>, False)"
| "CollectResource_loop timeout ((outcome, rd) # script) w =
     (let w1 = w\<lparr>trace := trace w @ [Wait timeout]\<rparr> in
      if WaitTimeout = outcome
      then CollectResource_loop (3 * Second) script (cycle rd w1)
      else (w1, True))"

definition CollectResource :: "(WaitResult \<times> readings) list \<Rightarrow> world \<Rightarrow> world \<times> bool" where
  "CollectResource script w = CollectResource_loop 0 script w"

subsection \<open>Notions used in the statements\<close>


text \<open>
  A slice \<open>s\<close> in the hands of some owner is separate from a slice \<open>g\<close> when the array
  of \<open>s\<close> is an allocated one and \<open>g\<close> is empty or lies on another allocated array.
\<close>

definition sep :: "heap \<Rightarrow> slice \<Rightarrow> slice \<Rightarrow> bool" where
  "sep h s g = (s_arr s < brk h \<and> (s_len g = 0 \<or> (s_arr g < brk h \<and> s_arr g \<noteq> s_arr s)))"


text \<open>
  Sample inputs. \<open>rd_ok\<close>: CPU counters (busy 100, total 200) then (busy 150, total
  300), memory 250 available of 1000, disk 100 free of 200, and interface eth0 going
  from (1000 in, 500 out) to (2000 in, 1500 out). \<open>rd_cpu_fail\<close>: the same with the
  first CPU read failing. \<open>rd_odd\<close>: more memory available than the total, and byte
  counters of eth0 that restarted between the two reads.
\<close>

definition rd_ok :: readings where
  "rd_ok =
     \<lparr>cpu_stat1 = Inr \<lparr>cpu_busy = 100, cpu_total = 200\<rparr>,
      cpu_stat2 = Inr \<lparr>cpu_busy = 150, cpu_total = 300\<rparr>,
      mem_stat = Inr \<lparr>mem_total = 1000, mem_available = 250\<rparr>,
      disk_stat = Inr \<lparr>disk_total = 200, disk_free = 100\<rparr>,
      net_traffic1 = Inr [(''eth0'', \<lparr>bytes_in = 1000, bytes_out = 500\<rparr>)],
      net_traffic2 = Inr [(''eth0'', \<lparr>bytes_in = 2000, bytes_out = 1500\<rparr>)]\<rparr>"

definition rd_cpu_fail :: readings where
  "rd_cpu_fail = rd_ok\<lparr>cpu_stat1 := Inl (Error ''open /proc/stat: permission denied'')\<rparr>"


definition eth0_8000 :: resource_NetworkTraffic where
  "eth0_8000 = \<lparr>Interface = ''eth0'', InboundBps = 8000, OutboundBps = 8000\<rparr>"

definition eth1_16 :: resource_NetworkTraffic where
  "eth1_16 = \<lparr>Interface = ''eth1'', InboundBps = 16, OutboundBps = 0\<rparr>"

definition lo_1 :: resource_NetworkTraffic where
  "lo_1 = \<lparr>Interface = ''lo'', InboundBps = 1, OutboundBps = 1\<rparr>"

text \<open>
  A caller holding a \<open>Resource\<close> whose slice has two entries and room for a third, on
  the array at address 1.
\<close>

definition caller_world :: world where
  "caller_world =
     init_world\<lparr>heap := \<lparr>arrays = (\<lambda>_. [])(1 := [eth0_8000, eth1_16, lo_1]), brk = 2\<rparr>\<rparr>"

definition caller_res :: Resource where
  "caller_res =
     \<lparr>CPUUsageRate = 50, MemUsageRate = 75, DiskUsageRate = 25,
      NetworkTraffic = \<lparr>s_arr = 1, s_off = 0, s_len = 2, s_cap = 3\<rparr>\<rparr>"

definition caller_muts :: "mutation list" where
  "caller_muts = [SetEntry 0 lo_1, AppendEntry eth0_8000, AppendEntry eth1_16, SetCPU 99]"



text \<open>
  Four environments: one whose PID file holds the PID 4242 of a running process, one
  with no PID file, one whose PID file cannot be read, and one whose PID file holds
  text that is no integer.
\<close>

definition env_running :: os_env where
  "env_running =
     \<lparr>file_ChangeWorkPathToModulePath = None,
      os_Open = (\<lambda>p. if p = PidFilePath then Inr 3 else Inl (Error ''no such file'')),
      io_ReadAll = (\<lambda>f. if f = 3 then Inr ''4242'' else Inl (Error ''bad descriptor'')),
      strconv_Atoi = (\<lambda>s. if s = ''4242'' then (4242, None) else (0, Some (Error ''invalid syntax''))),
      process_IsProcessRun = (\<lambda>p. p = 4242),
      process_SendSignal = (\<lambda>p s. None)\<rparr>"

definition env_no_file :: os_env where
  "env_no_file = env_running\<lparr>os_Open := (\<lambda>p. Inl (Error ''no such file''))\<rparr>"

definition env_unreadable :: os_env where
  "env_unreadable = env_running\<lparr>io_ReadAll := (\<lambda>f. Inl (Error ''input/output error''))\<rparr>"

definition env_garbage :: os_env where
  "env_garbage = env_running\<lparr>io_ReadAll := (\<lambda>f. Inr ''42x'')\<rparr>"




section \<open>Properties of package config\<close>










section \<open>Properties of package cmd\<close>

lemma IsRunning_true_iff:
  "fst (IsRunning env pid path st) \<longleftrightarrow>
     (\<exists>a file pidStr n. pid = Some a \<and> os_Open env path = Inr file \<and>
        io_ReadAll env file = Inr pidStr \<and> strconv_Atoi env pidStr = (n, None) \<and>
        process_IsProcessRun env n \<and> snd (IsRunning env pid path st) = st(a := n))"
  by (auto simp: IsRunning_def Let_def split: option.splits sum.splits prod.splits)

text \<open>
  C9. \<open>IsRunning\<close> returns false when the pointer is nil, when the PID file cannot be
  opened, when it cannot be read, and when its contents do not parse; it returns true
  only if the file opens, reads and parses to an integer \<open>n\<close> that
  \<open>process.IsProcessRun\<close> reports as running, and then \<open>*pid\<close> is \<open>n\<close> (and no other
  cell has changed).
\<close>

theorem IsRunning_spec:
  "\<not> fst (IsRunning env None path st) \<and>
   (\<forall>e. os_Open env path = Inl e \<longrightarrow> \<not> fst (IsRunning env pid path st)) \<and>
   (\<forall>file e. os_Open env path = Inr file \<and> io_ReadAll env file = Inl e \<longrightarrow>
       \<not> fst (IsRunning env pid path st)) \<and>
   (\<forall>file pidStr n e. os_Open env path = Inr file \<and> io_ReadAll env file = Inr pidStr \<and>
       strconv_Atoi env pidStr = (n, Some e) \<longrightarrow> \<not> fst (IsRunning env pid path st)) \<and>
   (fst (IsRunning env pid path st) \<longrightarrow>
     (\<exists>a file pidStr n. pid = Some a \<and> os_Open env path = Inr file \<and>
        io_ReadAll env file = Inr pidStr \<and> strconv_Atoi env pidStr = (n, None) \<and>
        process_IsProcessRun env n \<and> snd (IsRunning env pid path st) a = n \<and>
        snd (IsRunning env pid path st) = st(a := n)))"
proof -
  have nil: "\<not> fst (IsRunning env None path st)"
    by (simp add: IsRunning_def)
  have op: "\<And>e. os_Open env path = Inl e \<Longrightarrow> \<not> fst (IsRunning env pid path st)"
    by (simp add: IsRunning_def split: option.splits)
  have rd: "\<And>file e. os_Open env path = Inr file \<and> io_ReadAll env file = Inl e \<Longrightarrow>
       \<not> fst (IsRunning env pid path st)"
    by (simp add: IsRunning_def split: option.splits)
  have ps: "\<And>file pidStr n e. os_Open env path = Inr file \<and> io_ReadAll env file = Inr pidStr \<and>
       strconv_Atoi env pidStr = (n, Some e) \<Longrightarrow> \<not> fst (IsRunning env pid path st)"
    by (simp add: IsRunning_def Let_def split: option.splits)
  have tr: "fst (IsRunning env pid path st) \<Longrightarrow>
     (\<exists>a file pidStr n. pid = Some a \<and> os_Open env path = Inr file \<and>
        io_ReadAll env file = Inr pidStr \<and> strconv_Atoi env pidStr = (n, None) \<and>
        process_IsProcessRun env n \<and> snd (IsRunning env pid path st) a = n \<and>
        snd (IsRunning env pid path st) = st(a := n))"
    using IsRunning_true_iff [of env pid path st] by fastforce
  from nil op rd ps tr show ?thesis by blast
qed

theorem IsRunning_spec_witness:
  "IsRunning env_running (Some 0) PidFilePath (\<lambda>_. 0) = (True, (\<lambda>_. 0)(0 := 4242)) \<and>
   \<not> fst (IsRunning env_running None PidFilePath (\<lambda>_. 0)) \<and>
   \<not> fst (IsRunning env_no_file (Some 0) PidFilePath (\<lambda>_. 0)) \<and>
   \<not> fst (IsRunning env_unreadable (Some 0) PidFilePath (\<lambda>_. 0)) \<and>
   \<not> fst (IsRunning env_garbage (Some 0) PidFilePath (\<lambda>_. 0))"
proof -
  have run: "fst (IsRunning env_running (Some 0) PidFilePath (\<lambda>_. 0))"
    by (simp add: IsRunning_def env_running_def PidFilePath_def)
  have a: "os_Open env_running PidFilePath = Inr 3" "io_ReadAll env_running 3 = Inr ''4242''"
    "strconv_Atoi env_running ''4242'' = (4242, None)"
    by (simp_all add: env_running_def)
  have b: "os_Open env_no_file PidFilePath = Inl (Error ''no such file'')"
    by (simp add: env_no_file_def)
  have c: "os_Open env_unreadable PidFilePath = Inr 3 \<and>
           io_ReadAll env_unreadable 3 = Inl (Error ''input/output error'')"
    by (simp add: env_unreadable_def env_running_def)
  have d: "os_Open env_garbage PidFilePath = Inr 3 \<and> io_ReadAll env_garbage 3 = Inr ''42x'' \<and>
           strconv_Atoi env_garbage ''42x'' = (0, Some (Error ''invalid syntax''))"
    by (simp add: env_garbage_def env_running_def)
  from IsRunning_spec [of env_running PidFilePath "\<lambda>_. 0" "Some 0"] run a
  have 1: "IsRunning env_running (Some 0) PidFilePath (\<lambda>_. 0) = (True, (\<lambda>_. 0)(0 := 4242))"
    by (auto simp: prod_eq_iff)
  from IsRunning_spec [of env_running PidFilePath "\<lambda>_. 0" "Some 0"]
  have 2: "\<not> fst (IsRunning env_running None PidFilePath (\<lambda>_. 0))" by blast
  from IsRunning_spec [of env_no_file PidFilePath "\<lambda>_. 0" "Some 0"] b
  have 3: "\<not> fst (IsRunning env_no_file (Some 0) PidFilePath (\<lambda>_. 0))" by blast
  from IsRunning_spec [of env_unreadable PidFilePath "\<lambda>_. 0" "Some 0"] c
  have 4: "\<not> fst (IsRunning env_unreadable (Some 0) PidFilePath (\<lambda>_. 0))" by blast
  from IsRunning_spec [of env_garbage PidFilePath "\<lambda>_. 0" "Some 0"] d
  have 5: "\<not> fst (IsRunning env_garbage (Some 0) PidFilePath (\<lambda>_. 0))" by blast
  from 1 2 3 4 5 show ?thesis by blast
qed




section \<open>Properties of the snapshot store\<close>

lemma elems_alloc: "elems (snd (alloc h xs)) (fst (alloc h xs)) = xs"
  by (simp add: alloc_def elems_def)

lemma elems_nil_slice: "elems h nil_slice = []"
  by (simp add: elems_def nil_slice_def)

lemma elems_len0: "s_len g = 0 \<Longrightarrow> elems h g = []"
  by (simp add: elems_def)

lemma elems_append_to_empty:
  "elems (snd (append_to_empty h s)) (fst (append_to_empty h s)) = elems h s"
  by (simp add: append_to_empty_def elems_alloc elems_nil_slice) (simp add: elems_def)

lemma view_SetGlobalResource:
  "view (heap (SetGlobalResource r w)) (GlobalResource (SetGlobalResource r w)) = view (heap w) r"
  using elems_append_to_empty [of "heap w" "NetworkTraffic r"]
  by (simp add: SetGlobalResource_def view_def case_prod_beta)

lemma view_GetGlobalResource:
  "view (heap (snd (GetGlobalResource w))) (fst (GetGlobalResource w)) =
     view (heap w) (GlobalResource w)"
  using elems_append_to_empty [of "heap w" "NetworkTraffic (GlobalResource w)"]
  by (simp add: GetGlobalResource_def view_def case_prod_beta)

text \<open>
  C2. For every \<open>Resource\<close> value \<open>r\<close> and every state of the program, publishing
  \<open>r\<close> with \<open>SetGlobalResource\<close> and then reading with \<open>GetGlobalResource\<close> returns a
  \<open>Resource\<close> with the three rates of \<open>r\<close> and a traffic list equal, entry by entry,
  to that of \<open>r\<close>.
\<close>

theorem publish_then_read:
  "CPUUsageRate (fst (GetGlobalResource (SetGlobalResource r w))) = CPUUsageRate r \<and>
   MemUsageRate (fst (GetGlobalResource (SetGlobalResource r w))) = MemUsageRate r \<and>
   DiskUsageRate (fst (GetGlobalResource (SetGlobalResource r w))) = DiskUsageRate r \<and>
   elems (heap (snd (GetGlobalResource (SetGlobalResource r w))))
         (NetworkTraffic (fst (GetGlobalResource (SetGlobalResource r w)))) =
     elems (heap w) (NetworkTraffic r)"
  using view_GetGlobalResource [of "SetGlobalResource r w"] view_SetGlobalResource [of r w]
  by (simp add: view_def)

theorem publish_then_read_witness:
  "CPUUsageRate (fst (GetGlobalResource (SetGlobalResource caller_res caller_world))) = 50 \<and>
   MemUsageRate (fst (GetGlobalResource (SetGlobalResource caller_res caller_world))) = 75 \<and>
   DiskUsageRate (fst (GetGlobalResource (SetGlobalResource caller_res caller_world))) = 25 \<and>
   elems (heap (snd (GetGlobalResource (SetGlobalResource caller_res caller_world))))
         (NetworkTraffic (fst (GetGlobalResource (SetGlobalResource caller_res caller_world)))) =
     [eth0_8000, eth1_16]"
  using publish_then_read [of caller_res caller_world]
  by (simp add: caller_res_def caller_world_def init_world_def elems_def)

lemma mutate_sep:
  assumes "mutate m (r, h) = Some (r', h')" and "sep h (NetworkTraffic r) g"
  shows "sep h' (NetworkTraffic r') g \<and> elems h' g = elems h g"
proof (cases "s_len g = 0")
  case True
  with assms show ?thesis
    by (cases m) (auto simp: sep_def elems_len0 Let_def alloc_def split: if_splits)
next
  case False
  with assms show ?thesis
    by (cases m) (auto simp: sep_def elems_def Let_def alloc_def split: if_splits)
qed

lemma mutate_all_sep:
  "mutate_all ms (r, h) = Some (r', h') \<Longrightarrow> sep h (NetworkTraffic r) g \<Longrightarrow>
   sep h' (NetworkTraffic r') g \<and> elems h' g = elems h g"
proof (induction ms arbitrary: r h)
  case Nil
  then show ?case by simp
next
  case (Cons m ms)
  from Cons.prems(1) obtain r1 h1 where
    m: "mutate m (r, h) = Some (r1, h1)" and rest: "mutate_all ms (r1, h1) = Some (r', h')"
    by (auto split: option.splits)
  from mutate_sep [OF m Cons.prems(2)]
  have s1: "sep h1 (NetworkTraffic r1) g" and e1: "elems h1 g = elems h g" by simp_all
  from Cons.IH [OF rest s1] e1 show ?case by simp
qed

lemma sep_after_Set:
  "s_arr (NetworkTraffic s) < brk (heap w) \<Longrightarrow>
   sep (heap (SetGlobalResource s w)) (NetworkTraffic s)
       (NetworkTraffic (GlobalResource (SetGlobalResource s w)))"
  by (simp add: sep_def SetGlobalResource_def append_to_empty_def alloc_def nil_slice_def)

lemma sep_after_Get:
  "0 < brk (heap w) \<Longrightarrow>
   s_len (NetworkTraffic (GlobalResource w)) = 0 \<or>
     s_arr (NetworkTraffic (GlobalResource w)) < brk (heap w) \<Longrightarrow>
   sep (heap (snd (GetGlobalResource w))) (NetworkTraffic (fst (GetGlobalResource w)))
       (NetworkTraffic (GlobalResource w))"
  by (auto simp add: sep_def GetGlobalResource_def append_to_empty_def alloc_def nil_slice_def)

lemma global_after_Set:
  "s_len (NetworkTraffic (GlobalResource (SetGlobalResource s w))) = 0 \<or>
   s_arr (NetworkTraffic (GlobalResource (SetGlobalResource s w))) <
     brk (heap (SetGlobalResource s w))"
  by (simp add: SetGlobalResource_def append_to_empty_def alloc_def nil_slice_def)

lemma brk_SetGlobalResource: "brk (heap w) \<le> brk (heap (SetGlobalResource s w))"
  by (simp add: SetGlobalResource_def append_to_empty_def alloc_def)

lemma GlobalResource_Get: "GlobalResource (snd (GetGlobalResource w)) = GlobalResource w"
  by (simp add: GetGlobalResource_def case_prod_beta)

lemma view_Get_heap:
  "view (heap (snd (GetGlobalResource (w\<lparr>heap := h\<rparr>))))
        (fst (GetGlobalResource (w\<lparr>heap := h\<rparr>))) = view h (GlobalResource w)"
  using view_GetGlobalResource [of "w\<lparr>heap := h\<rparr>"] by simp

lemma view_elems_eq:
  "elems h' (NetworkTraffic r) = elems h (NetworkTraffic r) \<Longrightarrow> view h' r = view h r"
  by (simp add: view_def)

lemma elems_Get_older:
  "s_len g = 0 \<or> s_arr g < brk (heap w) \<Longrightarrow>
   elems (heap (snd (GetGlobalResource w))) g = elems (heap w) g"
  by (auto simp add: GetGlobalResource_def append_to_empty_def alloc_def elems_def)

text \<open>
  C3. Let the caller's \<open>s\<close> have its slice on an allocated array, and publish it.
  Whatever sequence of mutations the caller then performs on \<open>s\<close> (assigning rates,
  overwriting entries, appending, re-slicing), a later \<open>GetGlobalResource\<close> still
  returns the rates and entries \<open>s\<close> had when it was published. And whatever sequence
  of mutations a reader performs on the \<open>Resource\<close> that \<open>GetGlobalResource\<close> returned,
  the stored snapshot keeps those rates and entries, and so does what a later
  \<open>GetGlobalResource\<close> returns.
\<close>

theorem publish_isolated:
  assumes "s_arr (NetworkTraffic s) < brk (heap w)"
  shows "(\<forall>ms s' h'. mutate_all ms (s, heap (SetGlobalResource s w)) = Some (s', h') \<longrightarrow>
            view (heap (snd (GetGlobalResource (SetGlobalResource s w\<lparr>heap := h'\<rparr>))))
                 (fst (GetGlobalResource (SetGlobalResource s w\<lparr>heap := h'\<rparr>))) =
              view (heap w) s) \<and>
         (\<forall>ms r' h'.
            mutate_all ms (fst (GetGlobalResource (SetGlobalResource s w)),
                           heap (snd (GetGlobalResource (SetGlobalResource s w)))) =
              Some (r', h') \<longrightarrow>
            view h' (GlobalResource (snd (GetGlobalResource (SetGlobalResource s w)))) =
              view (heap w) s \<and>
            view (heap (snd (GetGlobalResource
                    (snd (GetGlobalResource (SetGlobalResource s w))\<lparr>heap := h'\<rparr>))))
                 (fst (GetGlobalResource
                    (snd (GetGlobalResource (SetGlobalResource s w))\<lparr>heap := h'\<rparr>))) =
              view (heap w) s)"
proof -
  let ?w1 = "SetGlobalResource s w"
  let ?g = "GlobalResource ?w1"
  let ?w2 = "snd (GetGlobalResource ?w1)"
  have a: "view h' ?g = view (heap w) s"
    if "mutate_all ms (s, heap ?w1) = Some (s', h')" for ms s' h'
  proof -
    from mutate_all_sep [OF that sep_after_Set [OF assms]]
    have "elems h' (NetworkTraffic ?g) = elems (heap ?w1) (NetworkTraffic ?g)" by simp
    then have "view h' ?g = view (heap ?w1) ?g" by (rule view_elems_eq)
    then show ?thesis by (simp add: view_SetGlobalResource)
  qed
  have pos: "0 < brk (heap ?w1)"
    using assms brk_SetGlobalResource [of w s] by simp
  have b: "view h' ?g = view (heap w) s"
    if "mutate_all ms (fst (GetGlobalResource ?w1), heap ?w2) = Some (r', h')" for ms r' h'
  proof -
    from mutate_all_sep [OF that sep_after_Get [OF pos global_after_Set]]
    have "elems h' (NetworkTraffic ?g) = elems (heap ?w2) (NetworkTraffic ?g)" by simp
    then have "view h' ?g = view (heap ?w2) ?g" by (rule view_elems_eq)
    also have "\<dots> = view (heap ?w1) ?g"
      by (rule view_elems_eq) (rule elems_Get_older [OF global_after_Set])
    finally show ?thesis by (simp add: view_SetGlobalResource)
  qed
  show ?thesis
    using a b by (simp add: view_Get_heap GlobalResource_Get)
qed

text \<open>
  The caller publishes a snapshot with entries eth0 and eth1, then overwrites entry 0,
  appends in place, appends again (which moves its slice to a new array) and changes
  its CPU rate: its own value has changed, the value read from the store has not. A
  reader that does the same to the value it was given leaves the store unchanged too.
\<close>

lemma caller_run:
  "mutate_all caller_muts (caller_res, heap (SetGlobalResource caller_res caller_world)) =
     Some (caller_res\<lparr>CPUUsageRate := 99,
                      NetworkTraffic := \<lparr>s_arr = 3, s_off = 0, s_len = 4, s_cap = 4\<rparr>\<rparr>,
           \<lparr>arrays = (\<lambda>_. [])(1 := [lo_1, eth1_16, eth0_8000], 2 := [eth0_8000, eth1_16],
                                3 := [lo_1, eth1_16, eth0_8000, eth1_16]),
            brk = 4\<rparr>)"
  by (simp add: caller_muts_def caller_res_def caller_world_def init_world_def
      SetGlobalResource_def append_to_empty_def alloc_def elems_def Let_def fun_upd_twist)

lemma reader_run:
  "mutate_all caller_muts
     (fst (GetGlobalResource (SetGlobalResource caller_res caller_world)),
      heap (snd (GetGlobalResource (SetGlobalResource caller_res caller_world)))) =
     Some (caller_res\<lparr>CPUUsageRate := 99,
                      NetworkTraffic := \<lparr>s_arr = 5, s_off = 0, s_len = 4, s_cap = 4\<rparr>\<rparr>,
           \<lparr>arrays = (\<lambda>_. [])(1 := [eth0_8000, eth1_16, lo_1], 2 := [eth0_8000, eth1_16],
                                3 := [lo_1, eth1_16], 4 := [lo_1, eth1_16, eth0_8000],
                                5 := [lo_1, eth1_16, eth0_8000, eth1_16]),
            brk = 6\<rparr>)"
  by (simp add: caller_muts_def caller_res_def caller_world_def init_world_def
      SetGlobalResource_def GetGlobalResource_def append_to_empty_def alloc_def elems_def
      Let_def fun_upd_twist)

theorem publish_isolated_witness:
  "view (heap (snd (GetGlobalResource (SetGlobalResource caller_res caller_world
          \<lparr>heap := \<lparr>arrays = (\<lambda>_. [])(1 := [lo_1, eth1_16, eth0_8000], 2 := [eth0_8000, eth1_16],
                                        3 := [lo_1, eth1_16, eth0_8000, eth1_16]),
                    brk = 4\<rparr>\<rparr>))))
        (fst (GetGlobalResource (SetGlobalResource caller_res caller_world
          \<lparr>heap := \<lparr>arrays = (\<lambda>_. [])(1 := [lo_1, eth1_16, eth0_8000], 2 := [eth0_8000, eth1_16],
                                        3 := [lo_1, eth1_16, eth0_8000, eth1_16]),
                    brk = 4\<rparr>\<rparr>))) =
     (50, 75, 25, [eth0_8000, eth1_16]) \<and>
   view \<lparr>arrays = (\<lambda>_. [])(1 := [lo_1, eth1_16, eth0_8000], 2 := [eth0_8000, eth1_16],
                            3 := [lo_1, eth1_16, eth0_8000, eth1_16]),
         brk = 4\<rparr>
        (caller_res\<lparr>CPUUsageRate := 99,
                    NetworkTraffic := \<lparr>s_arr = 3, s_off = 0, s_len = 4, s_cap = 4\<rparr>\<rparr>) =
     (99, 75, 25, [lo_1, eth1_16, eth0_8000, eth1_16]) \<and>
   view \<lparr>arrays = (\<lambda>_. [])(1 := [eth0_8000, eth1_16, lo_1], 2 := [eth0_8000, eth1_16],
                            3 := [lo_1, eth1_16], 4 := [lo_1, eth1_16, eth0_8000],
                            5 := [lo_1, eth1_16, eth0_8000, eth1_16]),
         brk = 6\<rparr>
        (GlobalResource (snd (GetGlobalResource (SetGlobalResource caller_res caller_world)))) =
     (50, 75, 25, [eth0_8000, eth1_16])"
proof -
  have alloc: "s_arr (NetworkTraffic caller_res) < brk (heap caller_world)"
    by (simp add: caller_res_def caller_world_def)
  have v: "view (heap caller_world) caller_res = (50, 75, 25, [eth0_8000, eth1_16])"
    by (simp add: view_def elems_def caller_res_def caller_world_def)
  from publish_isolated [OF alloc] caller_run reader_run v
  have 1: "view (heap (snd (GetGlobalResource (SetGlobalResource caller_res caller_world
          \<lparr>heap := \<lparr>arrays = (\<lambda>_. [])(1 := [lo_1, eth1_16, eth0_8000], 2 := [eth0_8000, eth1_16],
                                        3 := [lo_1, eth1_16, eth0_8000, eth1_16]),
                    brk = 4\<rparr>\<rparr>))))
        (fst (GetGlobalResource (SetGlobalResource caller_res caller_world
          \<lparr>heap := \<lparr>arrays = (\<lambda>_. [])(1 := [lo_1, eth1_16, eth0_8000], 2 := [eth0_8000, eth1_16],
                                        3 := [lo_1, eth1_16, eth0_8000, eth1_16]),
                    brk = 4\<rparr>\<rparr>))) =
     (50, 75, 25, [eth0_8000, eth1_16])"
    by metis
  from publish_isolated [OF alloc] reader_run v
  have 3: "view \<lparr>arrays = (\<lambda>_. [])(1 := [eth0_8000, eth1_16, lo_1], 2 := [eth0_8000, eth1_16],
                            3 := [lo_1, eth1_16], 4 := [lo_1, eth1_16, eth0_8000],
                            5 := [lo_1, eth1_16, eth0_8000, eth1_16]),
         brk = 6\<rparr>
        (GlobalResource (snd (GetGlobalResource (SetGlobalResource caller_res caller_world)))) =
     (50, 75, 25, [eth0_8000, eth1_16])"
    by metis
  have 2: "view \<lparr>arrays = (\<lambda>_. [])(1 := [lo_1, eth1_16, eth0_8000], 2 := [eth0_8000, eth1_16],
                            3 := [lo_1, eth1_16, eth0_8000, eth1_16]),
         brk = 4\<rparr>
        (caller_res\<lparr>CPUUsageRate := 99,
                    NetworkTraffic := \<lparr>s_arr = 3, s_off = 0, s_len = 4, s_cap = 4\<rparr>\<rparr>) =
     (99, 75, 25, [lo_1, eth1_16, eth0_8000, eth1_16])"
    by (simp add: view_def elems_def caller_res_def)
  from 1 2 3 show ?thesis by blast
qed


section \<open>Properties of the samplers\<close>

text \<open>
  C5. When both CPU reads succeed, with snapshot \<open>a\<close> read first and \<open>b\<close> second, and
  the two totals differ, \<open>getCPUUsageRate\<close> returns no error and the value (busy b -
  busy a) / (total b - total a) x 100 clamped to [0,100]. For a = (busy 100, total
  200) and b = (busy 150, total 300) that is 50.
\<close>

theorem getCPUUsageRate_rate:
  assumes "cpu_stat1 rd = Inr a" and "cpu_stat2 rd = Inr b" and "cpu_total b \<noteq> cpu_total a"
  shows "getCPUUsageRate rd =
           (max 0 (min 100 ((real (cpu_busy b) - real (cpu_busy a)) /
                            (real (cpu_total b) - real (cpu_total a)) * 100)), None) \<and>
         (a = \<lparr>cpu_busy = 100, cpu_total = 200\<rparr> \<and> b = \<lparr>cpu_busy = 150, cpu_total = 300\<rparr> \<longrightarrow>
            getCPUUsageRate rd = (50, None))"
  using assms by (simp add: getCPUUsageRate_def CalculateCPURate_def)

theorem getCPUUsageRate_rate_witness: "getCPUUsageRate rd_ok = (50, None)"
proof -
  have a: "cpu_stat1 rd_ok = Inr \<lparr>cpu_busy = 100, cpu_total = 200\<rparr>"
    and b: "cpu_stat2 rd_ok = Inr \<lparr>cpu_busy = 150, cpu_total = 300\<rparr>"
    by (simp_all add: rd_ok_def)
  have c: "cpu_total \<lparr>cpu_busy = 150, cpu_total = 300\<rparr> \<noteq> cpu_total \<lparr>cpu_busy = 100, cpu_total = 200\<rparr>"
    by simp
  from getCPUUsageRate_rate [OF a b c] show ?thesis by simp
qed








lemma SetGlobalResource_rates:
  "CPUUsageRate (GlobalResource (SetGlobalResource r w)) = CPUUsageRate r \<and>
   MemUsageRate (GlobalResource (SetGlobalResource r w)) = MemUsageRate r \<and>
   DiskUsageRate (GlobalResource (SetGlobalResource r w)) = DiskUsageRate r"
  by (simp add: SetGlobalResource_def case_prod_beta)

lemma cycle_CPU: "CPUUsageRate (GlobalResource (cycle rd w)) = fst (getCPUUsageRate rd)"
  by (simp add: cycle_def Let_def SetGlobalResource_rates zero_Resource_def)

lemma cycle_Mem: "MemUsageRate (GlobalResource (cycle rd w)) = fst (getMemUsageRate rd)"
  by (simp add: cycle_def Let_def SetGlobalResource_rates zero_Resource_def)

lemma cycle_Disk: "DiskUsageRate (GlobalResource (cycle rd w)) = fst (getDiskUsageRate rd)"
  by (simp add: cycle_def Let_def SetGlobalResource_rates zero_Resource_def)

lemma cycle_Net:
  "elems (heap (cycle rd w)) (NetworkTraffic (GlobalResource (cycle rd w))) =
     elems (snd (getNetworkTraffic rd (heap w))) (fst (fst (getNetworkTraffic rd (heap w))))"
  using elems_append_to_empty
    [of "snd (getNetworkTraffic rd (heap w))" "fst (fst (getNetworkTraffic rd (heap w)))"]
  by (simp add: cycle_def Let_def SetGlobalResource_def case_prod_beta zero_Resource_def)






section \<open>Properties of the collection cycle and loop\<close>

lemma getCPUUsageRate_failed:
  "snd (getCPUUsageRate rd) \<noteq> None \<Longrightarrow> fst (getCPUUsageRate rd) = 0"
  by (simp add: getCPUUsageRate_def split: sum.splits)

lemma getMemUsageRate_failed:
  "snd (getMemUsageRate rd) \<noteq> None \<Longrightarrow> fst (getMemUsageRate rd) = 0"
  by (simp add: getMemUsageRate_def split: sum.splits)

lemma getDiskUsageRate_failed:
  "snd (getDiskUsageRate rd) \<noteq> None \<Longrightarrow> fst (getDiskUsageRate rd) = 0"
  by (simp add: getDiskUsageRate_def split: sum.splits)

lemma getNetworkTraffic_failed:
  "snd (fst (getNetworkTraffic rd h)) \<noteq> None \<Longrightarrow>
   elems (snd (getNetworkTraffic rd h)) (fst (fst (getNetworkTraffic rd h))) = []"
  by (simp add: getNetworkTraffic_def elems_nil_slice case_prod_beta split: sum.splits)

lemma cycle_view:
  "view (heap (cycle rd w)) (GlobalResource (cycle rd w)) =
     ((case getCPUUsageRate rd of (v, None) \<Rightarrow> v | (v, Some e) \<Rightarrow> 0),
      (case getMemUsageRate rd of (v, None) \<Rightarrow> v | (v, Some e) \<Rightarrow> 0),
      (case getDiskUsageRate rd of (v, None) \<Rightarrow> v | (v, Some e) \<Rightarrow> 0),
      (case getNetworkTraffic rd (heap w) of
         ((s, None), h') \<Rightarrow> elems h' s | ((s, Some e), h') \<Rightarrow> []))"
  using getCPUUsageRate_failed [of rd] getMemUsageRate_failed [of rd]
    getDiskUsageRate_failed [of rd] getNetworkTraffic_failed [of rd "heap w"]
  by (auto simp add: view_def cycle_CPU cycle_Mem cycle_Disk cycle_Net
      split: prod.splits option.splits)

lemma rd_ok_values:
  "getCPUUsageRate rd_ok = (50, None)" "getMemUsageRate rd_ok = (75, None)"
  "getDiskUsageRate rd_ok = (50, None)"
  "getNetworkTraffic rd_ok h =
     ((\<lparr>s_arr = brk h, s_off = 0, s_len = 1, s_cap = 1\<rparr>, None),
      h\<lparr>arrays := (arrays h)(brk h := [eth0_8000]), brk := brk h + 1\<rparr>)"
  by (simp_all add: getCPUUsageRate_def getMemUsageRate_def getDiskUsageRate_def
        getNetworkTraffic_def CalculateCPURate_def CalculateMemRate_def CalculateDiskRate_def
        rd_ok_def alloc_def eth0_8000_def)

lemma rd_cpu_fail_values:
  "getCPUUsageRate rd_cpu_fail = (0, Some (Error ''open /proc/stat: permission denied''))"
  "getMemUsageRate rd_cpu_fail = (75, None)"
  "getDiskUsageRate rd_cpu_fail = (50, None)"
  "getNetworkTraffic rd_cpu_fail h =
     ((\<lparr>s_arr = brk h, s_off = 0, s_len = 1, s_cap = 1\<rparr>, None),
      h\<lparr>arrays := (arrays h)(brk h := [eth0_8000]), brk := brk h + 1\<rparr>)"
  by (simp_all add: getCPUUsageRate_def getMemUsageRate_def getDiskUsageRate_def
        getNetworkTraffic_def CalculateCPURate_def CalculateMemRate_def CalculateDiskRate_def
        rd_cpu_fail_def rd_ok_def alloc_def eth0_8000_def)

text \<open>
  As stated, "the failed field equals the value of the previously published snapshot"
  fails on the code: each cycle starts from a fresh zero \<open>Resource\<close> and a failing
  sampler returns 0, which is assigned. After a first cycle has published a CPU rate of
  50, a second cycle in which only the CPU sampler fails publishes a CPU rate of 0.
\<close>

theorem cycle_failure_counterexample:
  "CPUUsageRate (GlobalResource (cycle rd_ok init_world)) = 50 \<and>
   snd (getCPUUsageRate rd_cpu_fail) \<noteq> None \<and>
   snd (getMemUsageRate rd_cpu_fail) = None \<and>
   snd (getDiskUsageRate rd_cpu_fail) = None \<and>
   snd (fst (getNetworkTraffic rd_cpu_fail (heap (cycle rd_ok init_world)))) = None \<and>
   CPUUsageRate (GlobalResource (cycle rd_cpu_fail (cycle rd_ok init_world))) = 0 \<and>
   CPUUsageRate (GlobalResource (cycle rd_cpu_fail (cycle rd_ok init_world))) \<noteq>
     CPUUsageRate (GlobalResource (cycle rd_ok init_world))"
  by (simp add: cycle_CPU rd_ok_values rd_cpu_fail_values)

text \<open>
  C1, amended. If exactly one of the four samplers fails during a cycle, the snapshot
  published at the end of that cycle holds, for each of the other three metrics, the
  value its sampler returned, and the failed metric's field is the zero default (rate
  0, or no traffic entries), whatever the previously published snapshot was.
\<close>

theorem cycle_partial_failure:
  assumes "length (filter (\<lambda>e. e \<noteq> None)
             [snd (getCPUUsageRate rd), snd (getMemUsageRate rd), snd (getDiskUsageRate rd),
              snd (fst (getNetworkTraffic rd (heap w)))]) = 1"
  shows "view (heap (cycle rd w)) (GlobalResource (cycle rd w)) =
     ((case getCPUUsageRate rd of (v, None) \<Rightarrow> v | (v, Some e) \<Rightarrow> 0),
      (case getMemUsageRate rd of (v, None) \<Rightarrow> v | (v, Some e) \<Rightarrow> 0),
      (case getDiskUsageRate rd of (v, None) \<Rightarrow> v | (v, Some e) \<Rightarrow> 0),
      (case getNetworkTraffic rd (heap w) of
         ((s, None), h') \<Rightarrow> elems h' s | ((s, Some e), h') \<Rightarrow> []))"
  by (rule cycle_view)

theorem cycle_partial_failure_witness:
  "view (heap (cycle rd_ok init_world)) (GlobalResource (cycle rd_ok init_world)) =
     (50, 75, 50, [eth0_8000]) \<and>
   view (heap (cycle rd_cpu_fail (cycle rd_ok init_world)))
        (GlobalResource (cycle rd_cpu_fail (cycle rd_ok init_world))) =
     (0, 75, 50, [eth0_8000])"
proof -
  have one: "length (filter (\<lambda>e. e \<noteq> None)
             [snd (getCPUUsageRate rd_cpu_fail), snd (getMemUsageRate rd_cpu_fail),
              snd (getDiskUsageRate rd_cpu_fail),
              snd (fst (getNetworkTraffic rd_cpu_fail (heap (cycle rd_ok init_world))))]) = 1"
    by (simp add: rd_cpu_fail_values)
  have 1: "view (heap (cycle rd_ok init_world)) (GlobalResource (cycle rd_ok init_world)) =
     (50, 75, 50, [eth0_8000])"
    by (simp add: cycle_view rd_ok_values elems_def)
  from cycle_partial_failure [OF one]
  have 2: "view (heap (cycle rd_cpu_fail (cycle rd_ok init_world)))
        (GlobalResource (cycle rd_cpu_fail (cycle rd_ok init_world))) =
     (0, 75, 50, [eth0_8000])"
    by (simp add: rd_cpu_fail_values elems_def)
  from 1 2 show ?thesis by blast
qed


lemma trace_SetGlobalResource: "trace (SetGlobalResource r w) = trace w"
  by (simp add: SetGlobalResource_def case_prod_beta)

lemma trace_cycle: "trace (cycle rd w) = trace w @ [Launch, Publish]"
  by (simp add: cycle_def Let_def trace_SetGlobalResource)




lemma trace_loop_timeouts:
  "trace (fst (CollectResource_loop t (map (Pair WaitTimeout) rds) w)) =
     trace w @ Wait t # concat (replicate (length rds) [Launch, Publish, Wait (3 * Second)])"
  by (induction rds arbitrary: t w) (simp_all add: Let_def trace_cycle)

lemma loop_cancel:
  "outcome \<noteq> WaitTimeout \<Longrightarrow>
   CollectResource_loop t (map (Pair WaitTimeout) rds @ (outcome, rd) # rest) w =
     (fst (CollectResource_loop t (map (Pair WaitTimeout) rds) w), True)"
  by (induction rds arbitrary: t w) (auto simp add: Let_def)

text \<open>
  C7. After any number of completed cycles, when the next wait returns anything but
  \<open>WaitTimeout\<close> (a cancellation), \<open>CollectResource\<close> returns at once: the world is
  exactly the one in which that wait was entered (nothing further launched or
  published, the store and the heap untouched), whatever the script holds after the
  cancelled wait; the trace ends with that wait and has one launch and one publication
  per cycle completed before it.
\<close>

theorem cancel_at_wait:
  assumes "outcome \<noteq> WaitTimeout"
  shows "CollectResource (map (Pair WaitTimeout) rds @ (outcome, rd) # rest) w =
           (fst (CollectResource (map (Pair WaitTimeout) rds) w), True) \<and>
         trace (fst (CollectResource (map (Pair WaitTimeout) rds @ (outcome, rd) # rest) w)) =
           trace w @ Wait 0 #
           concat (replicate (length rds) [Launch, Publish, Wait (3 * Second)])"
  using loop_cancel [OF assms, of 0 rds rd rest w] trace_loop_timeouts [of 0 rds w]
  by (simp add: CollectResource_def)

theorem cancel_at_wait_witness:
  "CollectResource [(WaitTimeout, rd_ok), (WaitCancel, rd_ok), (WaitTimeout, rd_ok)] init_world =
     (fst (CollectResource [(WaitTimeout, rd_ok)] init_world), True) \<and>
   trace (fst (CollectResource
       [(WaitTimeout, rd_ok), (WaitCancel, rd_ok), (WaitTimeout, rd_ok)] init_world)) =
     [Wait 0, Launch, Publish, Wait 3000000000]"
proof -
  have c: "WaitCancel \<noteq> WaitTimeout" by simp
  have t: "trace init_world = []" by (simp add: init_world_def)
  note th = cancel_at_wait [OF c, of "[rd_ok]" rd_ok "[(WaitTimeout, rd_ok)]" init_world]
  from th [THEN conjunct1] have 1:
    "CollectResource [(WaitTimeout, rd_ok), (WaitCancel, rd_ok), (WaitTimeout, rd_ok)] init_world =
       (fst (CollectResource [(WaitTimeout, rd_ok)] init_world), True)"
    by simp
  from th [THEN conjunct2] have 2:
    "trace (fst (CollectResource
       [(WaitTimeout, rd_ok), (WaitCancel, rd_ok), (WaitTimeout, rd_ok)] init_world)) =
     [Wait 0, Launch, Publish, Wait 3000000000]"
    by (simp add: t Second_def)
  from 1 2 show ?thesis by (rule conjI)
qed


end
